theory Spec2Isabelle
  imports Main "HOL-Library.Sublist"
begin

section \<open>The module tree\<close>

text \<open>
  \<open>Utils/generator.py\<close> walks a tree of \<open>torch.nn.Module\<close> objects. A tensor (a
  \<open>Parameter\<close> or a buffer) is used by the traversal only through its identity
  (\<open>param is not module.bias\<close>), so a tensor is modelled as its object identity.
\<close>

type_synonym tensor = nat

text \<open>
  The \<open>isinstance\<close> tests of \<open>generator.py\<close> distinguish the six layer classes of
  the layer taxonomy; every other class (containers, blocks, activation layers) is
  \<open>Other\<close>. The module of these classes is not among the sources; \<open>kind\<close> is what
  an \<open>isinstance\<close> test against them tells of a module.
\<close>

datatype kind = Linear | Conv2d | BatchNorm1d | BatchNorm2d | Identity1d | Identity2d | Other

text \<open>
  A module carries what the traversal reads of it:
  \<^item> \<open>kind\<close>: the layer class it is an instance of;
  \<^item> \<open>params\<close>: the \<open>Parameter\<close> objects registered on the module itself, in
    registration order (\<open>_parameters\<close>, entries that are \<open>None\<close> left out);
  \<^item> \<open>buffers\<close>: the buffers registered on the module itself with their names, in
    registration order (\<open>_buffers\<close>, entries that are \<open>None\<close> left out);
  \<^item> \<open>bias\<close>: the value of the attribute \<open>module.bias\<close>, \<open>None\<close> for Python's
    \<open>None\<close>;
  \<^item> \<open>children\<close>: the child modules with their attribute names, in registration
    order (\<open>_modules\<close>).
  Any module may own parameters, buffers and children at once, as in torch.
\<close>

text \<open>
  Modelled from the spec: the layer classes of \<open>Layers\<close> (their attributes) are not
  among the sources. The specification's data model gives every layer a weight and an
  optional bias, so \<open>module.bias\<close> always evaluates, to a tensor or to \<open>None\<close>.
\<close>

datatype module = Module
  (kind: kind)
  (params: "tensor list")
  (buffers: "(string \<times> tensor) list")
  (bias: "tensor option")
  (children: "(string \<times> module) list")

section \<open>The iterators of torch.nn.Module\<close>

text \<open>
  \<open>"mask" in name\<close>: Python's substring test on strings, written as the scan it is.
\<close>

fun contains :: "string \<Rightarrow> string \<Rightarrow> bool" where
  "contains sub [] = (sub = [])"
| "contains sub (c # cs) = (prefix sub (c # cs) \<or> contains sub cs)"

text \<open>
  \<open>named_modules(prefix)\<close>: the module itself under the prefix, then the subtrees of its
  children in registration order, each under \<open>prefix + ('.' if prefix else '') + name\<close>.
  The tree is a tree of distinct module objects.
\<close>

definition dotted :: "string \<Rightarrow> string \<Rightarrow> string" where
  "dotted pre name = pre @ (if pre = [] then [] else ''.'') @ name"

fun named_modules :: "string \<Rightarrow> module \<Rightarrow> (string \<times> module) list" where
  "named_modules pre (Module k ps bs b cs) =
     (pre, Module k ps bs b cs) #
     concat (map (\<lambda>nc. named_modules (dotted pre (fst nc)) (snd nc)) cs)"

definition modules :: "module \<Rightarrow> module list" where
  "modules model = map snd (named_modules [] model)"

text \<open>
  \<open>_named_members\<close>: the members in order, leaving out an object that was produced
  before (the \<open>memo\<close> set of torch, compared by identity).
\<close>

fun named_members :: "tensor list \<Rightarrow> (string \<times> tensor) list \<Rightarrow> (string \<times> tensor) list" where
  "named_members memo [] = []"
| "named_members memo ((name, v) # rest) =
     (if v \<in> set memo then named_members memo rest
      else (name, v) # named_members (v # memo) rest)"

fun members :: "tensor list \<Rightarrow> tensor list \<Rightarrow> tensor list" where
  "members memo [] = []"
| "members memo (v # rest) =
     (if v \<in> set memo then members memo rest else v # members (v # memo) rest)"

text \<open>\<open>module.named_buffers()\<close>, with the default \<open>recurse=True\<close>.\<close>

definition named_buffers :: "module \<Rightarrow> (string \<times> tensor) list" where
  "named_buffers module =
     named_members []
       (concat (map (\<lambda>pm. map (\<lambda>nb. (dotted (fst pm) (fst nb), snd nb)) (buffers (snd pm)))
                    (named_modules [] module)))"

text \<open>\<open>module.parameters(recurse=False)\<close>.\<close>

definition parameters_own :: "module \<Rightarrow> tensor list" where
  "parameters_own module = members [] (params module)"

section \<open>Errors and the names of generator.py\<close>

text \<open>
  The exceptions the modelled code raises: \<open>NameError\<close> with the name that is not
  defined, and the \<open>ValueError\<close> of \<open>_plan\<close> with the depth it refuses.
\<close>

datatype error = NameError string | ValueError int

text \<open>
  The global names of the module \<open>generator.py\<close>. Its first line is
  \<^verbatim>\<open>from Layers import layers_class_class\<close>
  which binds the one name \<open>layers_class_class\<close> (the package \<open>Layers\<close> is not
  among the sources; the import is taken to succeed); the five \<open>def\<close> statements bind
  the names of the functions. Nothing else is assigned at module level. The bodies of
  \<open>trainable\<close> and \<open>prunable\<close> read the global \<open>layers_class\<close>, which is none of
  these names and no builtin: evaluating it raises \<open>NameError\<close>.
\<close>

definition module_globals :: "string list" where
  "module_globals =
     [''layers_class_class'', ''masks'', ''trainable'', ''prunable'', ''parameters'',
      ''masked_parameters'']"

definition global_name :: "string \<Rightarrow> error + unit" where
  "global_name name =
     (if name \<in> set module_globals then Inr () else Inl (NameError name))"

section \<open>Utils/generator.py\<close>

text \<open>
  \<open>masks\<close> reads no global name. Its generator is modelled by the list of what it
  yields when it is run to its end.
  \<^verbatim>\<open>
  def masks(module):
      for name, buf in module.named_buffers():
          if "mask" in name:
              yield buf
  \<close>
\<close>

definition masks :: "module \<Rightarrow> tensor list" where
  "masks module = [buf. (name, buf) \<leftarrow> named_buffers module, contains ''mask'' name]"

text \<open>
  The tuple of classes is evaluated before \<open>isinstance\<close> is called, so the name
  \<open>layers_class\<close> is looked up first.
  \<^verbatim>\<open>
  def trainable(module):
      return not isinstance(module, (layers_class.Identity1d, layers_class.Identity2d))
  \<close>
\<close>

definition trainable :: "module \<Rightarrow> error + bool" where
  "trainable module =
     (case global_name ''layers_class'' of
        Inl e \<Rightarrow> Inl e
      | Inr _ \<Rightarrow> Inr (\<not> (kind module = Identity1d \<or> kind module = Identity2d)))"

text \<open>
  \<^verbatim>\<open>
  def prunable(module, batchnorm, residual):
      isprunable = isinstance(module, (layers_class.Linear, layers_class.Conv2d))
      if batchnorm:
          isprunable |= isinstance(module, (layers_class.BatchNorm1d, layers_class.BatchNorm2d))
      if residual:
          isprunable |= isinstance(module, (layers_class.Identity1d, layers_class.Identity2d))
      return isprunable
  \<close>
\<close>

definition prunable :: "module \<Rightarrow> bool \<Rightarrow> bool \<Rightarrow> error + bool" where
  "prunable module batchnorm residual =
     (case global_name ''layers_class'' of
        Inl e \<Rightarrow> Inl e
      | Inr _ \<Rightarrow>
          Inr (let isprunable = (kind module = Linear \<or> kind module = Conv2d);
                   isprunable = (if batchnorm
                                 then isprunable \<or>
                                      (kind module = BatchNorm1d \<or> kind module = BatchNorm2d)
                                 else isprunable);
                   isprunable = (if residual
                                 then isprunable \<or>
                                      (kind module = Identity1d \<or> kind module = Identity2d)
                                 else isprunable)
               in isprunable))"

text \<open>
  A generator that may raise is modelled by the list of what it yields, in order, and
  the exception that ends it, if one does. \<open>filter\<close> is lazy: the predicate is called
  on a module when the loop reaches it, so what earlier modules yielded comes before an
  exception raised for a later one.
  \<^verbatim>\<open>
  def parameters(model):
      for module in filter(lambda p: trainable(p), model.modules()):
          for param in module.parameters(recurse=False):
              yield param
  \<close>
\<close>

fun parameters_loop :: "module list \<Rightarrow> tensor list \<times> error option" where
  "parameters_loop [] = ([], None)"
| "parameters_loop (module # rest) =
     (case trainable module of
        Inl e \<Rightarrow> ([], Some e)
      | Inr keep \<Rightarrow>
          (let (ys, e) = parameters_loop rest
           in ((if keep then parameters_own module else []) @ ys, e)))"

definition parameters :: "module \<Rightarrow> tensor list \<times> error option" where
  "parameters model = parameters_loop (modules model)"

text \<open>
  The flag \<open>bias\<close> of the source is \<open>bias_flag\<close> here, \<open>bias\<close> being the attribute.
  \<^verbatim>\<open>
  def masked_parameters(model, bias=False, batchnorm=False, residual=False):
      for module in filter(lambda p: prunable(p, batchnorm, residual), model.modules()):
          for mask, param in zip(masks(module), module.parameters(recurse=False)):
              if param is not module.bias or bias is True:
                  yield mask, param
  \<close>
\<close>

fun masked_parameters_loop ::
  "bool \<Rightarrow> bool \<Rightarrow> bool \<Rightarrow> module list \<Rightarrow> (tensor \<times> tensor) list \<times> error option" where
  "masked_parameters_loop bias_flag batchnorm residual [] = ([], None)"
| "masked_parameters_loop bias_flag batchnorm residual (module # rest) =
     (case prunable module batchnorm residual of
        Inl e \<Rightarrow> ([], Some e)
      | Inr keep \<Rightarrow>
          (let (ys, e) = masked_parameters_loop bias_flag batchnorm residual rest
           in ((if keep
                then [(msk, param).
                        (msk, param) \<leftarrow> zip (masks module) (parameters_own module),
                        Some param \<noteq> bias module \<or> bias_flag]
                else []) @ ys, e)))"

definition masked_parameters ::
  "module \<Rightarrow> bool \<Rightarrow> bool \<Rightarrow> bool \<Rightarrow> (tensor \<times> tensor) list \<times> error option" where
  "masked_parameters model bias_flag batchnorm residual =
     masked_parameters_loop bias_flag batchnorm residual (modules model)"

section \<open>Models/lottery_resnet.py\<close>

text \<open>
  \<open>_plan\<close> of the source is \<open>plan\<close> here. Python's integers are unbounded, and its
  \<open>%\<close> and \<open>//\<close> round towards minus infinity, as \<open>mod\<close> and \<open>div\<close> on \<open>int\<close> do.
  \<^verbatim>\<open>
  def _plan(D, W):
      if (D - 2) % 3 != 0:
          raise ValueError('Invalid ResNet depth: {}'.format(D))
      D = (D - 2) // 6
      plan = [(W, D), (2*W, D), (4*W, D)]
      return plan
  \<close>
\<close>

definition plan :: "int \<Rightarrow> int \<Rightarrow> error + (int \<times> int) list" where
  "plan D W =
     (if (D - 2) mod 3 \<noteq> 0 then Inl (ValueError D)
      else let D' = (D - 2) div 6 in Inr [(W, D'), (2 * W, D'), (4 * W, D')])"

section \<open>Reference definitions\<close>

text \<open>
  Every buffer registration of the subtree with its dotted name, in the same order:
  the module's own buffers, then those of each child's subtree.
\<close>

fun subtree_buffers :: "string \<Rightarrow> module \<Rightarrow> (string \<times> tensor) list" where
  "subtree_buffers pre (Module k ps bs b cs) =
     map (\<lambda>nb. (dotted pre (fst nb), snd nb)) bs @
     concat (map (\<lambda>nc. subtree_buffers (dotted pre (fst nc)) (snd nc)) cs)"

section \<open>Example models\<close>

text \<open>
  The two-layer model of the specification: a \<open>Conv2d\<close> without bias that owns a
  weight (tensor 1) and its mask (tensor 2), and a \<open>BatchNorm2d\<close> that owns a weight
  and a bias (tensors 3 and 4) and the three buffers of torch's batch norm, none of
  them a mask.
\<close>

definition conv_layer :: module where
  "conv_layer = Module Conv2d [1] [(''weight_mask'', 2)] None []"

definition bn_layer :: module where
  "bn_layer = Module BatchNorm2d [3, 4]
     [(''running_mean'', 5), (''running_var'', 6), (''num_batches_tracked'', 7)] (Some 4) []"

definition toy :: module where
  "toy = Module Other [] [] None [(''0'', conv_layer), (''1'', bn_layer)]"

text \<open>A linear layer with weight and bias (tensors 1 and 2) and a mask for each.\<close>

definition linear_layer :: module where
  "linear_layer =
     Module Linear [1, 2] [(''weight_mask'', 3), (''bias_mask'', 4)] (Some 2) []"

text \<open>A linear layer with weight and bias and a mask for the weight only.\<close>

definition linear_one_mask :: module where
  "linear_one_mask = Module Linear [1, 2] [(''weight_mask'', 3)] (Some 2) []"

section \<open>Facts about the iterators\<close>

lemma contains_sublist: "contains sub s = sublist sub s"
  by (induction s) (auto simp: sublist_Cons_right)

lemma members_set: "set (members memo xs) = set xs - set memo"
  by (induction memo xs rule: members.induct) auto

lemma members_distinct: "distinct (members memo xs)"
  by (induction memo xs rule: members.induct) (auto simp: members_set)

lemma named_members_snd: "map snd (named_members memo xs) = members memo (map snd xs)"
  by (induction memo xs rule: named_members.induct) auto

lemma named_members_id:
  "distinct (map snd xs) \<Longrightarrow> set (map snd xs) \<inter> set memo = {} \<Longrightarrow> named_members memo xs = xs"
  by (induction memo xs rule: named_members.induct) auto

lemma named_members_subset: "set (named_members memo xs) \<subseteq> set xs"
  by (induction memo xs rule: named_members.induct) auto

lemma named_members_tensors: "snd ` set (named_members [] xs) = snd ` set xs"
proof -
  have "set (map snd (named_members [] xs)) = set (map snd xs)"
    by (simp only: named_members_snd members_set) simp
  then show ?thesis by simp
qed

lemma concat_map_concat:
  "concat (map f (concat xss)) = concat (map (\<lambda>xs. concat (map f xs)) xss)"
  by (induction xss) auto

lemma concat_map_if_snd:
  "concat (map (\<lambda>(a, b). if P a then [b] else []) xs) = map snd (filter (\<lambda>(a, b). P a) xs)"
  by (induction xs) auto


lemma named_modules_buffers:
  "concat (map (\<lambda>pm. map (\<lambda>nb. (dotted (fst pm) (fst nb), snd nb)) (buffers (snd pm)))
               (named_modules pre m)) = subtree_buffers pre m"
proof (induction pre m rule: named_modules.induct)
  case (1 pre k ps bs b cs)
  let ?f = "\<lambda>pm. map (\<lambda>nb. (dotted (fst pm) (fst nb), snd nb)) (buffers (snd pm))"
  have eq: "\<And>nc. nc \<in> set cs \<Longrightarrow>
      concat (map ?f (named_modules (dotted pre (fst nc)) (snd nc)))
      = subtree_buffers (dotted pre (fst nc)) (snd nc)"
    using 1 by simp
  show ?case by (simp add: comp_def concat_map_concat eq cong: map_cong)
qed

lemma named_buffers_subtree:
  "named_buffers module = named_members [] (subtree_buffers [] module)"
  by (simp add: named_buffers_def named_modules_buffers)


section \<open>The unbound name\<close>

lemma global_layers_class: "global_name ''layers_class'' = Inl (NameError ''layers_class'')"
  by (simp add: global_name_def module_globals_def)

lemma trainable_NameError: "trainable module = Inl (NameError ''layers_class'')"
  by (simp add: trainable_def global_layers_class)

lemma prunable_NameError:
  "prunable module batchnorm residual = Inl (NameError ''layers_class'')"
  by (simp add: prunable_def global_layers_class)

lemma modules_first: "\<exists>rest. modules model = model # rest"
  by (cases model) (simp add: modules_def)

lemma parameters_NameError: "parameters model = ([], Some (NameError ''layers_class''))"
proof -
  obtain rest where "modules model = model # rest"
    using modules_first by blast
  then show ?thesis
    by (simp add: parameters_def trainable_NameError)
qed

lemma masked_parameters_NameError:
  "masked_parameters model bias_flag batchnorm residual =
     ([], Some (NameError ''layers_class''))"
proof -
  obtain rest where "modules model = model # rest"
    using modules_first by blast
  then show ?thesis
    by (simp add: masked_parameters_def prunable_NameError)
qed

section \<open>Classification predicates\<close>

text \<open>
  C2. The claim gives \<open>prunable\<close> a truth value for every module and every pair of
  flags, true for a \<open>Linear\<close> with both flags false. The function as it stands
  raises \<open>NameError\<close> for every module and every pair of flags, before any test is
  made: the name \<open>layers_class\<close> that its first statement reads is not bound.
\<close>

theorem prunable_raises:
  "prunable module batchnorm residual = Inl (NameError ''layers_class'')
   \<and> kind linear_layer = Linear
   \<and> prunable linear_layer False False \<noteq> Inr True"
  by (simp add: prunable_NameError linear_layer_def)


section \<open>Trainable parameters\<close>

text \<open>
  C4. The claim has \<open>parameters\<close> yield the own parameters of the modules that are
  not Identity layers, in depth-first order: for the two-layer model \<open>toy\<close> the
  tensors 1, 3 and 4. As it stands \<open>trainable\<close> raises \<open>NameError\<close> for every
  module, and \<open>parameters\<close> yields nothing and ends with that exception for every
  model, raised when \<open>filter\<close> tests the first module.
\<close>

theorem parameters_raises:
  "trainable module = Inl (NameError ''layers_class'')
   \<and> parameters model = ([], Some (NameError ''layers_class''))
   \<and> modules toy = [toy, conv_layer, bn_layer]
   \<and> concat (map parameters_own (modules toy)) = [1, 3, 4]
   \<and> parameters toy \<noteq> ([1, 3, 4], None)"
proof -
  have m: "modules toy = [toy, conv_layer, bn_layer]" by code_simp
  have p: "concat (map parameters_own (modules toy)) = [1, 3, 4]" by code_simp
  have n: "parameters toy \<noteq> ([1, 3, 4], None)"
    by (simp add: parameters_NameError)
  show ?thesis
    using trainable_NameError [of module] parameters_NameError [of model] m p n by blast
qed

section \<open>Masked parameters\<close>

text \<open>
  C1. The claim has \<open>masked_parameters\<close> yield the matched pairs of each retained
  module, without the pair of the bias unless \<open>bias=True\<close>: for the linear layer
  \<open>linear_layer\<close> the pair of weight and mask, and with \<open>bias=True\<close> the pair of
  bias and mask as well. As it stands \<open>masked_parameters\<close> yields nothing and ends
  with \<open>NameError\<close>, for every model and all flags: \<open>prunable\<close> raises when
  \<open>filter\<close> tests the first module.
\<close>

theorem masked_parameters_raises:
  "masked_parameters model bias_flag batchnorm residual =
     ([], Some (NameError ''layers_class''))
   \<and> kind linear_layer = Linear
   \<and> bias linear_layer = Some 2
   \<and> zip (masks linear_layer) (parameters_own linear_layer) = [(3, 1), (4, 2)]
   \<and> masked_parameters linear_layer False False False \<noteq> ([(3, 1)], None)
   \<and> masked_parameters linear_layer True False False \<noteq> ([(3, 1), (4, 2)], None)"
proof -
  have z: "zip (masks linear_layer) (parameters_own linear_layer) = [(3, 1), (4, 2)]"
    by code_simp
  have k: "kind linear_layer = Linear \<and> bias linear_layer = Some 2"
    by (simp add: linear_layer_def)
  show ?thesis
    by (simp add: masked_parameters_NameError z k)
qed

text \<open>
  C3. The claim has \<open>masked_parameters\<close> pair the masks a retained module owns with
  its own parameters, position by position: for the convolution \<open>conv_layer\<close>, which
  has no children, its mask (tensor 2) with its weight (tensor 1). As it stands the
  traversal of \<open>conv_layer\<close> ends with \<open>NameError\<close> before \<open>zip\<close> is reached, and
  no pair is yielded.
\<close>

theorem conv_pairing_raises:
  "kind conv_layer = Conv2d
   \<and> children conv_layer = []
   \<and> masks conv_layer = [2]
   \<and> parameters_own conv_layer = [1]
   \<and> masked_parameters conv_layer True False False = ([], Some (NameError ''layers_class''))
   \<and> fst (masked_parameters conv_layer True False False) \<noteq> [(2, 1)]"
proof -
  have m: "masks conv_layer = [2]" by code_simp
  have p: "parameters_own conv_layer = [1]" by code_simp
  have k: "kind conv_layer = Conv2d \<and> children conv_layer = []"
    by (simp add: conv_layer_def)
  show ?thesis
    by (simp add: masked_parameters_NameError m p k)
qed

text \<open>
  C7. The claim has \<open>masked_parameters\<close> raise nothing and yield, for the two-layer
  model \<open>toy\<close>, exactly the pair of the convolution's mask and weight, with the
  default flags and with \<open>batchnorm=True\<close>. As it stands both traversals of \<open>toy\<close>
  yield nothing and end with \<open>NameError\<close>.
\<close>

theorem toy_raises:
  "masks bn_layer = []
   \<and> masked_parameters toy False False False = ([], Some (NameError ''layers_class''))
   \<and> masked_parameters toy False True False = ([], Some (NameError ''layers_class''))
   \<and> masked_parameters toy False False False \<noteq> ([(2, 1)], None)
   \<and> masked_parameters toy False True False \<noteq> ([(2, 1)], None)"
proof -
  have m: "masks bn_layer = []" by code_simp
  show ?thesis
    by (simp add: masked_parameters_NameError m)
qed

text \<open>
  C9. The claim has \<open>masked_parameters\<close> raise no error on a retained module whose
  masks and own parameters differ in number, and yield as many pairs as the shorter
  sequence has: one pair for the linear layer \<open>linear_one_mask\<close> with one mask and
  two parameters. As it stands the traversal of \<open>linear_one_mask\<close> raises
  \<open>NameError\<close> and yields no pair.
\<close>

theorem mismatch_raises:
  "masks linear_one_mask = [3]
   \<and> parameters_own linear_one_mask = [1, 2]
   \<and> length (masks linear_one_mask) \<noteq> length (parameters_own linear_one_mask)
   \<and> snd (masked_parameters linear_one_mask True False False)
       = Some (NameError ''layers_class'')
   \<and> length (fst (masked_parameters linear_one_mask True False False)) = 0"
proof -
  have m: "masks linear_one_mask = [3]" by code_simp
  have p: "parameters_own linear_one_mask = [1, 2]" by code_simp
  show ?thesis
    by (simp add: masked_parameters_NameError m p)
qed

section \<open>The plan of a residual network\<close>

text \<open>
  C10. \<open>_plan(D, W)\<close> (here \<open>plan\<close>) raises \<open>ValueError\<close> exactly when
  \<open>(D - 2) mod 3\<close> is not zero, and returns the three segments
  \<open>[(W, (D-2)//6), (2W, (D-2)//6), (4W, (D-2)//6)]\<close> otherwise. Depth 23 is
  accepted, with three blocks per segment, although 21 is not a multiple of 6.
\<close>

theorem plan_result:
  "isl (plan D W) = ((D - 2) mod 3 \<noteq> 0)
   \<and> ((D - 2) mod 3 \<noteq> 0 \<longrightarrow> plan D W = Inl (ValueError D))
   \<and> ((D - 2) mod 3 = 0 \<longrightarrow>
        plan D W = Inr [(W, (D - 2) div 6), (2 * W, (D - 2) div 6), (4 * W, (D - 2) div 6)])
   \<and> plan 23 W = Inr [(W, 3), (2 * W, 3), (4 * W, 3)]
   \<and> (23 - 2) mod 6 \<noteq> (0::int)"
  by (simp add: plan_def Let_def)

theorem plan_result_witness:
  "(20 - 2) mod 3 = (0::int) \<and> plan 20 16 = Inr [(16, 3), (32, 3), (64, 3)]
   \<and> (22 - 2) mod 3 \<noteq> (0::int) \<and> plan 22 16 = Inl (ValueError 22)"
  using plan_result [of 20 16] plan_result [of 22 16] by simp


section \<open>Mask discovery\<close>

lemma masks_filter:
  "masks module =
     map snd (filter (\<lambda>(name, buf). sublist ''mask'' name) (named_buffers module))"
  unfolding masks_def contains_sublist by (rule concat_map_if_snd)


text \<open>
  C6. \<open>masks(module)\<close> yields the buffers of the subtree rooted at the module whose
  name contains \<open>mask\<close>, in depth-first declaration order. The buffers and their
  names are those \<open>named_buffers\<close> gives: every buffer object registered in the subtree,
  once, under the dotted name of its first registration; only buffers are looked at,
  never parameters. Without a buffer of such a name the result is empty. The function
  is total, it has no error result, and its value depends on the module alone.
\<close>

theorem masks_subtree:
  "masks module =
     map snd (filter (\<lambda>(name, buf). sublist ''mask'' name) (named_buffers module))
   \<and> named_buffers module = named_members [] (subtree_buffers [] module)
   \<and> distinct (map snd (named_buffers module))
   \<and> set (named_buffers module) \<subseteq> set (subtree_buffers [] module)
   \<and> snd ` set (named_buffers module) = snd ` set (subtree_buffers [] module)
   \<and> ((\<forall>(name, buf) \<in> set (subtree_buffers [] module). \<not> sublist ''mask'' name)
        \<longrightarrow> masks module = [])
   \<and> (distinct (map snd (subtree_buffers [] module)) \<longrightarrow>
        masks module =
          map snd (filter (\<lambda>(name, buf). sublist ''mask'' name)
                          (subtree_buffers [] module)))"
proof (intro conjI impI)
  show "masks module =
      map snd (filter (\<lambda>(name, buf). sublist ''mask'' name) (named_buffers module))"
    by (rule masks_filter)
  show nb: "named_buffers module = named_members [] (subtree_buffers [] module)"
    by (rule named_buffers_subtree)
  show "distinct (map snd (named_buffers module))"
    by (simp add: nb named_members_snd members_distinct)
  show sub: "set (named_buffers module) \<subseteq> set (subtree_buffers [] module)"
    by (simp add: nb named_members_subset)
  show "snd ` set (named_buffers module) = snd ` set (subtree_buffers [] module)"
    by (simp only: nb named_members_tensors)
  show "masks module = []"
    if "\<forall>(name, buf) \<in> set (subtree_buffers [] module). \<not> sublist ''mask'' name"
    using that sub by (auto simp: masks_filter filter_empty_conv)
  show "masks module =
      map snd (filter (\<lambda>(name, buf). sublist ''mask'' name) (subtree_buffers [] module))"
    if "distinct (map snd (subtree_buffers [] module))"
    using that by (simp add: masks_filter nb named_members_id)
qed

theorem masks_subtree_witness:
  "subtree_buffers [] bn_layer =
     [(''running_mean'', 5), (''running_var'', 6), (''num_batches_tracked'', 7)]
   \<and> masks bn_layer = []
   \<and> subtree_buffers [] toy =
       [(''0.weight_mask'', 2), (''1.running_mean'', 5), (''1.running_var'', 6),
        (''1.num_batches_tracked'', 7)]
   \<and> distinct (map snd (subtree_buffers [] toy))
   \<and> masks toy = [2]"
proof -
  have bn: "subtree_buffers [] bn_layer =
     [(''running_mean'', 5), (''running_var'', 6), (''num_batches_tracked'', 7)]"
    by (simp add: bn_layer_def dotted_def)
  have toy: "subtree_buffers [] toy =
       [(''0.weight_mask'', 2), (''1.running_mean'', 5), (''1.running_var'', 6),
        (''1.num_batches_tracked'', 7)]"
    by (simp add: toy_def conv_layer_def bn_layer_def dotted_def)
  have no_mask: "\<forall>(name, buf) \<in> set (subtree_buffers [] bn_layer). \<not> sublist ''mask'' name"
    unfolding bn contains_sublist [symmetric] by simp
  have dist: "distinct (map snd (subtree_buffers [] toy))"
    unfolding toy by simp
  have sel: "map snd (filter (\<lambda>(name, buf). sublist ''mask'' name) (subtree_buffers [] toy))
             = [2]"
    unfolding toy contains_sublist [symmetric] by simp
  show ?thesis
    using masks_subtree [of bn_layer] masks_subtree [of toy] no_mask dist sel bn toy
    by simp
qed

end
